theory Spec2Isabelle
  imports Complex_Main
begin

section \<open>Python exceptions and process exit\<close>

text \<open>
  The exception classes that decide a branch of \<^verbatim>\<open>hal-nofp-bridge.py\<close>. \<open>OSError\<close> stands for an
  \<^verbatim>\<open>OSError\<close> that is none of its listed subclasses; \<open>SocketTimeout\<close>, \<open>TimeoutError\<close> and
  \<open>ConnectionError\<close> are subclasses of \<^verbatim>\<open>OSError\<close>. \<open>SystemExit c\<close> is what \<^verbatim>\<open>exit(c)\<close> raises.
\<close>

datatype exn =
    SystemExit int
  | OSError
  | SocketTimeout
  | TimeoutError
  | ConnectionError
  | TypeError
  | AttributeError
  | KeyError
  | ValueError
  | OverflowError
  | OtherException

text \<open>\<^verbatim>\<open>except OSError\<close> (lines 69 and 113).\<close>

fun is_OSError :: "exn \<Rightarrow> bool" where
  "is_OSError OSError = True"
| "is_OSError SocketTimeout = True"
| "is_OSError TimeoutError = True"
| "is_OSError ConnectionError = True"
| "is_OSError _ = False"

text \<open>\<^verbatim>\<open>except (socket.timeout, TimeoutError, ConnectionError)\<close> (line 142).\<close>

fun is_loop_transient :: "exn \<Rightarrow> bool" where
  "is_loop_transient SocketTimeout = True"
| "is_loop_transient TimeoutError = True"
| "is_loop_transient ConnectionError = True"
| "is_loop_transient _ = False"

text \<open>
  The status the interpreter exits with when an exception leaves \<^verbatim>\<open>run()\<close> uncaught:
  the code of a \<^verbatim>\<open>SystemExit\<close>, and 1 (after printing the traceback) for any other exception.
\<close>

fun exit_status :: "exn \<Rightarrow> int" where
  "exit_status (SystemExit c) = c"
| "exit_status _ = 1"

section \<open>Configuration, observable actions, environment\<close>

text \<open>The dataclass \<^verbatim>\<open>NOFP.config\<close> (lines 16-27), the three ceilings as integers.\<close>

record config =
  name :: string
  description :: string
  mqtt_broker :: string
  mqtt_port :: int
  mqtt_timeout :: int
  topic :: string
  param_conv :: "(string \<times> string) list"
  mqtt_max_reconnects :: int
  mqtt_max_startup :: int
  mqtt_max_loop_reconnect :: int
  loglevel :: "string option"

datatype level = Debug | Info | Warning | Error | Critical

text \<open>
  What the program does to the outside, in the order it does it: calls of the transport
  client, waits on \<^verbatim>\<open>tEvent\<close>, the \<^verbatim>\<open>atexit\<close> registration, and calls of the \<^verbatim>\<open>logging\<close>
  functions. A \<open>Log\<close> action carries the level and the string literal the message starts with;
  the rendered suffix (a traceback, \<^verbatim>\<open>str(rc)\<close>) is not part of the model. \<open>AtexitRegister\<close> is
  the registration on line 111; the registered \<^verbatim>\<open>self.disconnect\<close> runs when the interpreter
  exits, after \<^verbatim>\<open>run\<close>. A \<open>Connect\<close>, \<open>Reconnect\<close> or \<open>Loop\<close> action is the call, whether it
  returns or raises; a \<open>Subscribe\<close> or \<open>Publish\<close> action is a call that returned.
\<close>

datatype action =
    Connect string int int
  | AtexitRegister
  | Reconnect
  | Loop
  | Wait nat
  | Subscribe string
  | Publish string string
  | Log level string
  | BasicConfig string

text \<open>The result of one call of the transport client: it returns, or it raises.\<close>

datatype outcome = Ok | Raises exn

definition traceback :: string where
  "traceback = ''Traceback (most recent call last):''"

section \<open>Startup: lines 107-120\<close>

text \<open>
  The \<^verbatim>\<open>while startup_count < self.config.mqtt_max_startup\<close> loop. \<open>connect_result k\<close> is
  the outcome of the \<open>k\<close>-th call of \<^verbatim>\<open>self.connect\<close> (\<open>k = 1, 2, ...\<close>). The result is the
  exception that leaves the loop (if any), the final \<^verbatim>\<open>startup_count\<close> and the actions.
\<close>

function startup_loop :: "config \<Rightarrow> (nat \<Rightarrow> outcome) \<Rightarrow> int \<Rightarrow> exn option \<times> int \<times> action list" where
  "startup_loop cfg connect_result startup_count =
     (if startup_count < mqtt_max_startup cfg then
        (let startup_count' = startup_count + 1;
             call = [Connect (mqtt_broker cfg) (mqtt_port cfg) (mqtt_timeout cfg)]
         in case connect_result (nat startup_count') of
              Ok \<Rightarrow> (None, startup_count', call @ [AtexitRegister])
            | Raises e \<Rightarrow>
                if is_OSError e then
                  (case startup_loop cfg connect_result startup_count' of
                     (r, c, acts) \<Rightarrow>
                       (r, c, call @ [Log Error ''Error connecting on bootup.'',
                                      Log Error traceback, Wait 30] @ acts))
                else (Some e, startup_count', call))
      else (None, startup_count, []))"
  by pat_completeness auto
termination
  by (relation "measure (\<lambda>(cfg, cr, c). nat (mqtt_max_startup cfg - c))") auto

section \<open>The disconnect callback: lines 59-75\<close>

text \<open>
  The \<^verbatim>\<open>while reconnect_count < self.config.mqtt_max_reconnects\<close> loop of \<^verbatim>\<open>on_disconnect\<close>.
  \<open>reconnect_result k\<close> is the outcome of the \<open>k\<close>-th call of \<^verbatim>\<open>self.reconnect\<close> in this callback.
\<close>

function reconnect_loop :: "config \<Rightarrow> (nat \<Rightarrow> outcome) \<Rightarrow> int \<Rightarrow> exn option \<times> int \<times> action list" where
  "reconnect_loop cfg reconnect_result reconnect_count =
     (if reconnect_count < mqtt_max_reconnects cfg then
        (let reconnect_count' = reconnect_count + 1
         in case reconnect_result (nat reconnect_count') of
              Ok \<Rightarrow> (None, reconnect_count', [Reconnect])
            | Raises e \<Rightarrow>
                if is_OSError e then
                  (case reconnect_loop cfg reconnect_result reconnect_count' of
                     (r, c, acts) \<Rightarrow>
                       (r, c, [Reconnect, Log Error ''Connection error while trying to reconnect.'',
                               Log Error traceback, Wait 30] @ acts))
                else (Some e, reconnect_count', [Reconnect]))
      else (None, reconnect_count, []))"
  by pat_completeness auto
termination
  by (relation "measure (\<lambda>(cfg, rr, c). nat (mqtt_max_reconnects cfg - c))") auto

text \<open>
  \<^verbatim>\<open>on_disconnect(self, client, userdata, rc)\<close>: the exception that leaves the callback (if any)
  and its actions. \<^verbatim>\<open>exit(1)\<close> raises \<open>SystemExit 1\<close> into the caller of the callback.
\<close>

definition on_disconnect :: "config \<Rightarrow> int \<Rightarrow> (nat \<Rightarrow> outcome) \<Rightarrow> exn option \<times> action list" where
  "on_disconnect cfg rc reconnect_result =
     (if rc \<noteq> 0 then
        (case reconnect_loop cfg reconnect_result 0 of
           (Some e, reconnect_count, acts) \<Rightarrow>
             (Some e, [Log Warning ''MQTT Disconnected: '',
                       Log Error ''Unexpected disconnection.  Attempting reconnection.''] @ acts)
         | (None, reconnect_count, acts) \<Rightarrow>
             if mqtt_max_reconnects cfg \<le> reconnect_count then
               (Some (SystemExit 1),
                [Log Warning ''MQTT Disconnected: '',
                 Log Error ''Unexpected disconnection.  Attempting reconnection.''] @ acts @
                [Log Critical ''Too many reconnect tries.  Exiting.''])
             else
               (None, [Log Warning ''MQTT Disconnected: '',
                       Log Error ''Unexpected disconnection.  Attempting reconnection.''] @ acts))
      else (None, [Log Warning ''MQTT Disconnected: '']))"

section \<open>Python floats: \<^verbatim>\<open>float()\<close>, \<^verbatim>\<open>*\<close> and \<^verbatim>\<open>format(_, ".0f")\<close>\<close>

text \<open>
  A Python \<^verbatim>\<open>float\<close> is an IEEE-754 binary64 number. \<open>Finite s m e\<close> is the number of sign
  \<open>s\<close> (\<open>True\<close> for minus) and magnitude \<open>m * 2 ^ e\<close>; the sign is kept when \<open>m = 0\<close>, since
  Python has a negative zero. \<open>Infinity s\<close> is \<^verbatim>\<open>inf\<close> or \<^verbatim>\<open>-inf\<close>.
\<close>

datatype pyfloat = Finite bool nat int | Infinity bool | NaN

text \<open>The integer nearest to \<open>a / b\<close>, a tie going to the even neighbour.\<close>

definition round_half_even :: "nat \<Rightarrow> nat \<Rightarrow> nat" where
  "round_half_even a b =
     (let q = a div b; r = a mod b
      in if 2 * r < b then q else if b < 2 * r then q + 1 else if even q then q else q + 1)"

function bit_length :: "nat \<Rightarrow> nat" where
  "bit_length n = (if n = 0 then 0 else Suc (bit_length (n div 2)))"
  by pat_completeness auto
termination
  by (relation "measure (\<lambda>n. n)") auto

text \<open>The fraction \<open>(a / b) / 2 ^ e\<close>, as numerator and denominator.\<close>

definition scaled :: "nat \<Rightarrow> nat \<Rightarrow> int \<Rightarrow> nat \<times> nat" where
  "scaled a b e = (if 0 \<le> e then (a, b * 2 ^ nat e) else (a * 2 ^ nat (- e), b))"

text \<open>
  The exponent of the binary64 grid at \<open>a / b > 0\<close>: the \<open>e\<close> with
  \<open>2 ^ 52 \<le> (a / b) / 2 ^ e < 2 ^ 53\<close>, and \<open>-1074\<close> (the subnormal grid) when that would be
  smaller.
\<close>

definition binary_exponent :: "nat \<Rightarrow> nat \<Rightarrow> int" where
  "binary_exponent a b =
     (let k = int (bit_length a) - int (bit_length b)
      in case scaled a b k of
           (n, d) \<Rightarrow> max ((if d \<le> n then k else k - 1) - 52) (- 1074))"

text \<open>
  Rounding \<open>a / b\<close> (with sign \<open>s\<close>) to binary64, to nearest with ties to the even mantissa; a
  magnitude of \<open>2 ^ 1024\<close> or more after rounding overflows to infinity.
\<close>

definition round_binary64 :: "bool \<Rightarrow> nat \<Rightarrow> nat \<Rightarrow> pyfloat" where
  "round_binary64 s a b =
     (if a = 0 then Finite s 0 0
      else let e = binary_exponent a b
           in case scaled a b e of
                (n, d) \<Rightarrow>
                  let m = round_half_even n d
                  in if 971 < e \<or> (e = 971 \<and> m = 2 ^ 53) then Infinity s else Finite s m e)"

text \<open>Float multiplication: the exact product, rounded.\<close>

fun fmul :: "pyfloat \<Rightarrow> pyfloat \<Rightarrow> pyfloat" where
  "fmul NaN _ = NaN"
| "fmul _ NaN = NaN"
| "fmul (Infinity s) (Infinity t) = Infinity (s \<noteq> t)"
| "fmul (Infinity s) (Finite t m e) = (if m = 0 then NaN else Infinity (s \<noteq> t))"
| "fmul (Finite s m e) (Infinity t) = (if m = 0 then NaN else Infinity (s \<noteq> t))"
| "fmul (Finite s m e) (Finite t n f) =
     (case scaled (m * n) 1 (- (e + f)) of (a, b) \<Rightarrow> round_binary64 (s \<noteq> t) a b)"

text \<open>
  The float that the decimal literal of sign \<open>s\<close> and magnitude \<open>d * 10 ^ x\<close> denotes
  (\<^verbatim>\<open>float("12.345")\<close>, and a JSON number with a fraction or an exponent): Python rounds it
  correctly.
\<close>

definition float_of_decimal :: "bool \<Rightarrow> nat \<Rightarrow> int \<Rightarrow> pyfloat" where
  "float_of_decimal s d x =
     (if 0 \<le> x then round_binary64 s (d * 10 ^ nat x) 1 else round_binary64 s d (10 ^ nat (- x)))"

text \<open>\<^verbatim>\<open>float(i)\<close> of a Python \<^verbatim>\<open>int\<close>: the nearest float, \<^verbatim>\<open>OverflowError\<close> when there is none.\<close>

definition float_of_int :: "int \<Rightarrow> exn + pyfloat" where
  "float_of_int i =
     (case round_binary64 (i < 0) (nat \<bar>i\<bar>) 1 of
        Infinity s \<Rightarrow> Inl OverflowError
      | f \<Rightarrow> Inr f)"

text \<open>The magnitude of \<open>Finite s m e\<close>, as a real number.\<close>

definition magnitude :: "nat \<Rightarrow> int \<Rightarrow> real" where
  "magnitude m e = real m * 2 powi e"

text \<open>The decimal digits of a natural number.\<close>

function show_nat :: "nat \<Rightarrow> string" where
  "show_nat n =
     (if n < 10 then [''0123456789'' ! n]
      else show_nat (n div 10) @ [''0123456789'' ! (n mod 10)])"
  by pat_completeness auto
termination
  by (relation "measure (\<lambda>n. n)") auto

text \<open>
  \<^verbatim>\<open>format(v, ".0f")\<close>: no fractional digits; the value rounded to the nearest integer, ties to
  even; a minus sign whenever the sign bit is set.
\<close>

fun format_0f :: "pyfloat \<Rightarrow> string" where
  "format_0f NaN = ''nan''"
| "format_0f (Infinity s) = (if s then ''-inf'' else ''inf'')"
| "format_0f (Finite s m e) =
     (if s then ''-'' else []) @
     (case scaled m 1 (- e) of (a, b) \<Rightarrow> show_nat (round_half_even a b))"

section \<open>The message callback: lines 46-57\<close>

text \<open>
  What \<^verbatim>\<open>json.loads\<close> returns; a \<^verbatim>\<open>dict\<close> is the list of its items, each key once.
\<close>

datatype json =
    JNull
  | JBool bool
  | JInt int
  | JFloat pyfloat
  | JStr string
  | JList "json list"
  | JDict "(string \<times> json) list"

text \<open>
  The library functions the callbacks call, as parameters:
  \<open>json_loads p\<close> is \<^verbatim>\<open>json.loads(p.decode("utf-8"))\<close> (\<open>Inl\<close> the exception it raises);
  \<open>float_of_str s\<close> is \<^verbatim>\<open>float(s)\<close> of a \<^verbatim>\<open>str\<close> (\<open>None\<close> when it raises \<^verbatim>\<open>ValueError\<close>);
  \<open>publish_result t d\<close> is what \<^verbatim>\<open>self.publish(t, d)\<close> does, return or raise (the transport client
  raises \<^verbatim>\<open>ValueError\<close> for a topic it refuses, one with a wildcard character for instance); and
  \<open>subscribe_result t\<close> is what \<^verbatim>\<open>self.subscribe(t)\<close> does.
\<close>

record lib =
  json_loads :: "string \<Rightarrow> exn + json"
  float_of_str :: "string \<Rightarrow> pyfloat option"
  publish_result :: "string \<Rightarrow> string \<Rightarrow> outcome"
  subscribe_result :: "string \<Rightarrow> outcome"

text \<open>\<^verbatim>\<open>rcv[key]\<close> with a \<^verbatim>\<open>str\<close> key: only a \<^verbatim>\<open>dict\<close> can be subscripted with it.\<close>

fun py_getitem :: "json \<Rightarrow> string \<Rightarrow> exn + json" where
  "py_getitem (JDict kvs) k = (case map_of kvs k of None \<Rightarrow> Inl KeyError | Some v \<Rightarrow> Inr v)"
| "py_getitem _ k = Inl TypeError"

text \<open>\<^verbatim>\<open>float(v)\<close>.\<close>

fun py_float :: "lib \<Rightarrow> json \<Rightarrow> exn + pyfloat" where
  "py_float L (JFloat f) = Inr f"
| "py_float L (JInt i) = float_of_int i"
| "py_float L (JBool b) = Inr (Finite False (if b then 1 else 0) 0)"
| "py_float L (JStr s) = (case float_of_str L s of None \<Rightarrow> Inl ValueError | Some f \<Rightarrow> Inr f)"
| "py_float L _ = Inl TypeError"

text \<open>\<^verbatim>\<open>float(rcv[topic[0]])\<close> (line 51).\<close>

definition field_value :: "lib \<Rightarrow> json \<Rightarrow> string \<Rightarrow> exn + pyfloat" where
  "field_value L rcv k = (case py_getitem rcv k of Inl e \<Rightarrow> Inl e | Inr v \<Rightarrow> py_float L v)"

text \<open>The \<^verbatim>\<open>int\<close> 1000 of \<^verbatim>\<open>val_f *= 1000\<close>, converted to a float (exactly).\<close>

definition thousand :: pyfloat where
  "thousand = Finite False 1000 0"

text \<open>
  The \<^verbatim>\<open>for topic in self.config.param_conv\<close> loop (lines 50-54): the exception that ends it
  (if any) and the publishes made until then. The exception comes from the lookup, from
  \<^verbatim>\<open>float\<close>, or from \<^verbatim>\<open>self.publish\<close>; a publish that raises has published nothing.
\<close>

fun convert :: "lib \<Rightarrow> config \<Rightarrow> json \<Rightarrow> (string \<times> string) list \<Rightarrow> exn option \<times> action list" where
  "convert L cfg rcv [] = (None, [])"
| "convert L cfg rcv (tp # rest) =
     (case field_value L rcv (fst tp) of
        Inl e \<Rightarrow> (Some e, [])
      | Inr val_f \<Rightarrow>
          (let data = format_0f (fmul val_f thousand)
           in case publish_result L (name cfg @ ''/'' @ snd tp) data of
                Raises e \<Rightarrow> (Some e, [])
              | Ok \<Rightarrow>
                  (case convert L cfg rcv rest of
                     (r, acts) \<Rightarrow> (r, Publish (name cfg @ ''/'' @ snd tp) data # acts))))"

text \<open>
  \<^verbatim>\<open>on_message\<close>: the bare \<^verbatim>\<open>except:\<close> catches whatever the \<^verbatim>\<open>try\<close> block raises and logs two
  warnings, so no exception leaves the callback.
\<close>

definition on_message :: "lib \<Rightarrow> config \<Rightarrow> string \<Rightarrow> string \<Rightarrow> exn option \<times> action list" where
  "on_message L cfg msg_topic payload =
     (if msg_topic = topic cfg then
        (case (case json_loads L payload of
                 Inl e \<Rightarrow> (Some e, [])
               | Inr rcv \<Rightarrow> convert L cfg rcv (param_conv cfg)) of
           (None, acts) \<Rightarrow> (None, acts)
         | (Some e, acts) \<Rightarrow>
             (None, acts @ [Log Warning ''Message failed to parse: '', Log Warning traceback]))
      else (None, []))"

section \<open>One network-service tick: \<^verbatim>\<open>self.loop()\<close>\<close>

text \<open>
  What the transport does during one call of \<^verbatim>\<open>self.loop()\<close>: the callbacks it invokes, in
  order, and whether it then returns or raises. An exception that leaves a callback leaves
  \<^verbatim>\<open>self.loop()\<close>.
\<close>

text \<open>\<^verbatim>\<open>on_connect\<close> (lines 42-44).\<close>

definition on_connect :: "lib \<Rightarrow> config \<Rightarrow> int \<Rightarrow> exn option \<times> action list" where
  "on_connect L cfg rc =
     (case subscribe_result L (topic cfg) of
        Ok \<Rightarrow> (None, [Log Info ''MQTT Connected: '', Subscribe (topic cfg)])
      | Raises e \<Rightarrow> (Some e, [Log Info ''MQTT Connected: '']))"

datatype callback =
    OnConnect int
  | OnMessage string string
  | OnDisconnect int "nat \<Rightarrow> outcome"

fun run_callbacks :: "lib \<Rightarrow> config \<Rightarrow> callback list \<Rightarrow> exn option \<times> action list" where
  "run_callbacks L cfg [] = (None, [])"
| "run_callbacks L cfg (cb # cbs) =
     (case (case cb of
              OnConnect rc \<Rightarrow> on_connect L cfg rc
            | OnMessage tp payload \<Rightarrow> on_message L cfg tp payload
            | OnDisconnect rc rr \<Rightarrow> on_disconnect cfg rc rr) of
        (Some e, acts) \<Rightarrow> (Some e, acts)
      | (None, acts) \<Rightarrow>
          (case run_callbacks L cfg cbs of (r, acts') \<Rightarrow> (r, acts @ acts')))"

text \<open>
  One iteration's share of the environment: the outcome of \<^verbatim>\<open>self.reconnect()\<close> at line 133
  (read only when the pending-reconnect flag is set), whether a termination signal is
  delivered while \<^verbatim>\<open>self.loop()\<close> runs, and the tick itself.
\<close>

record tick =
  reconnect_result :: outcome
  signal :: bool
  callbacks :: "callback list"
  loop_result :: outcome

definition loop_call :: "lib \<Rightarrow> config \<Rightarrow> tick \<Rightarrow> exn option \<times> action list" where
  "loop_call L cfg t =
     (case run_callbacks L cfg (callbacks t) of
        (Some e, acts) \<Rightarrow> (Some e, acts)
      | (None, acts) \<Rightarrow>
          (case loop_result t of Ok \<Rightarrow> (None, acts) | Raises e \<Rightarrow> (Some e, acts)))"

section \<open>The steady-state loop: lines 123-155\<close>

text \<open>
  The variables of \<^verbatim>\<open>run\<close> the loop reads and writes: the attribute \<^verbatim>\<open>self.running\<close>, the
  attribute \<^verbatim>\<open>self.loop_count\<close>, the locals \<^verbatim>\<open>reconnect_flag\<close> and \<^verbatim>\<open>loop_reconnect_count\<close>,
  and the attribute \<^verbatim>\<open>self.reconnect_flag\<close> that line 134 assigns (unset before).
\<close>

record sup_state =
  running :: bool
  loop_count :: int
  reconnect_flag :: bool
  loop_reconnect_count :: int
  self_reconnect_flag :: "bool option"

text \<open>Python values of the expression on line 145, and \<^verbatim>\<open>+\<close> on them.\<close>

datatype pyval = PyStr string | PyInt int

fun py_add :: "pyval \<Rightarrow> pyval \<Rightarrow> exn + pyval" where
  "py_add (PyStr a) (PyStr b) = Inr (PyStr (a @ b))"
| "py_add (PyInt a) (PyInt b) = Inr (PyInt (a + b))"
| "py_add _ _ = Inl TypeError"

text \<open>
  The argument of \<^verbatim>\<open>logging.error\<close> on line 145,
  \<^verbatim>\<open>"MQTT loop error.  Attempting to reconnect. " + loop_reconnect_count + " of " + self.config.mqtt_max_loop_reconnect\<close>,
  evaluated left to right.
\<close>

definition loop_error_message :: "int \<Rightarrow> int \<Rightarrow> exn + pyval" where
  "loop_error_message cnt limit =
     (case py_add (PyStr ''MQTT loop error.  Attempting to reconnect. '') (PyInt cnt) of
        Inl e \<Rightarrow> Inl e
      | Inr a \<Rightarrow>
          (case py_add a (PyStr '' of '') of
             Inl e \<Rightarrow> Inl e
           | Inr b \<Rightarrow> py_add b (PyInt limit)))"

text \<open>
  The attributes of the module \<^verbatim>\<open>logging\<close> that the program reads. The module has no attribute
  \<^verbatim>\<open>logging\<close>, so \<^verbatim>\<open>logging.logging\<close> (line 147) raises \<^verbatim>\<open>AttributeError\<close>.
\<close>

definition logging_attributes :: "string list" where
  "logging_attributes =
     [''debug'', ''info'', ''warn'', ''warning'', ''error'', ''critical'',
      ''basicConfig'', ''getLevelName'']"

definition logging_getattr :: "string \<Rightarrow> exn + unit" where
  "logging_getattr a = (if a \<in> set logging_attributes then Inr () else Inl AttributeError)"

text \<open>The \<^verbatim>\<open>try\<close> block, lines 132-138.\<close>

definition try_body :: "lib \<Rightarrow> config \<Rightarrow> sup_state \<Rightarrow> tick \<Rightarrow> exn option \<times> sup_state \<times> action list" where
  "try_body L cfg st t =
     (case (if reconnect_flag st then
              (case reconnect_result t of
                 Ok \<Rightarrow> (None, st\<lparr>self_reconnect_flag := Some False\<rparr>, [Reconnect])
               | Raises e \<Rightarrow> (Some e, st, [Reconnect]))
            else (None, st, [])) of
        (Some e, st', acts) \<Rightarrow> (Some e, st', acts)
      | (None, st', acts) \<Rightarrow>
          (let st'' = (if signal t then st'\<lparr>running := False\<rparr> else st');
               sig = (if signal t then [Log Warning ''Caught a deadly signal: ''] else [])
           in case loop_call L cfg t of
                (Some e, acts') \<Rightarrow> (Some e, st'', acts @ [Loop] @ sig @ acts')
              | (None, acts') \<Rightarrow>
                  (None, st''\<lparr>loop_reconnect_count := 0\<rparr>, acts @ [Loop] @ sig @ acts')))"

text \<open>How an iteration ends: the loop goes on, \<^verbatim>\<open>break\<close>, or an exception leaves the loop.\<close>

datatype ctl = Continue | Break | Abort exn

text \<open>The \<^verbatim>\<open>except\<close> clauses, lines 139-150, in their order.\<close>

definition on_loop_exception :: "config \<Rightarrow> sup_state \<Rightarrow> exn \<Rightarrow> ctl \<times> sup_state \<times> action list" where
  "on_loop_exception cfg st e =
     (case e of
        SystemExit c \<Rightarrow> (Break, st, [])
      | _ \<Rightarrow>
          if is_loop_transient e then
            (let st' = st\<lparr>loop_reconnect_count := loop_reconnect_count st + 1,
                          reconnect_flag := True\<rparr>
             in case loop_error_message (loop_reconnect_count st') (mqtt_max_loop_reconnect cfg) of
                  Inl e' \<Rightarrow> (Abort e', st', [])
                | Inr msg \<Rightarrow>
                    (Continue, st', [Log Error ''MQTT loop error.  Attempting to reconnect. '']))
          else
            (case logging_getattr ''logging'' of
               Inl e' \<Rightarrow> (Abort e', st, [])
             | Inr u \<Rightarrow>
                 (Abort (SystemExit 2), st,
                  [Log Critical ''Exception in MQTT loop.'', Log Critical traceback,
                   Log Critical ''Exiting.''])))"

text \<open>The loop body, lines 126-150.\<close>

definition iteration :: "lib \<Rightarrow> config \<Rightarrow> sup_state \<Rightarrow> tick \<Rightarrow> ctl \<times> sup_state \<times> action list" where
  "iteration L cfg st t =
     (case try_body L cfg
             (st\<lparr>loop_count := (if 65535 \<le> loop_count st then 0 else loop_count st + 1)\<rparr>) t of
        (None, st', acts) \<Rightarrow> (Continue, st', acts)
      | (Some e, st', acts) \<Rightarrow>
          (case on_loop_exception cfg st' e of (c, st'', acts') \<Rightarrow> (c, st'', acts @ acts')))"

text \<open>Lines 151-155, after the loop.\<close>

definition after_loop :: "config \<Rightarrow> sup_state \<Rightarrow> exn \<times> action list" where
  "after_loop cfg st =
     (if mqtt_max_loop_reconnect cfg \<le> loop_reconnect_count st then
        (SystemExit 1, [Log Critical ''Too many loop reconnects.  Exiting.''])
      else (SystemExit 0, [Log Info ''Successfully reached exit.'']))"

text \<open>
  How \<^verbatim>\<open>run\<close> ends: an exception leaves it (every \<^verbatim>\<open>exit\<close> is one), or the finite list of
  ticks given to it is used up while the loop is still going.
\<close>

datatype run_result = Raised exn | Running

text \<open>
  The \<^verbatim>\<open>while self.running and (loop_reconnect_count < self.config.mqtt_max_loop_reconnect)\<close>
  loop with the lines after it, driven by a list of ticks.
\<close>

fun steady_loop :: "lib \<Rightarrow> config \<Rightarrow> sup_state \<Rightarrow> tick list \<Rightarrow> run_result \<times> sup_state \<times> action list" where
  "steady_loop L cfg st [] =
     (if running st \<and> loop_reconnect_count st < mqtt_max_loop_reconnect cfg then (Running, st, [])
      else (case after_loop cfg st of (e, acts) \<Rightarrow> (Raised e, st, acts)))"
| "steady_loop L cfg st (t # ts) =
     (if running st \<and> loop_reconnect_count st < mqtt_max_loop_reconnect cfg then
        (case iteration L cfg st t of
           (Continue, st', acts) \<Rightarrow>
             (case steady_loop L cfg st' ts of (r, st'', acts') \<Rightarrow> (r, st'', acts @ acts'))
         | (Break, st', acts) \<Rightarrow>
             (case after_loop cfg st' of (e, acts') \<Rightarrow> (Raised e, st', acts @ acts'))
         | (Abort e, st', acts) \<Rightarrow> (Raised e, st', acts))
      else (case after_loop cfg st of (e, acts) \<Rightarrow> (Raised e, st, acts)))"

section \<open>\<^verbatim>\<open>run\<close>: lines 82-155\<close>

text \<open>\<^verbatim>\<open>str.upper\<close> on ASCII letters.\<close>

definition ascii_upper :: "string \<Rightarrow> string" where
  "ascii_upper s =
     map (\<lambda>c. case map_of (zip ''abcdefghijklmnopqrstuvwxyz'' ''ABCDEFGHIJKLMNOPQRSTUVWXYZ'') c of
                None \<Rightarrow> c | Some u \<Rightarrow> u) s"

text \<open>The names for which \<^verbatim>\<open>logging.getLevelName\<close> returns an \<^verbatim>\<open>int\<close>.\<close>

definition level_names :: "string list" where
  "level_names =
     [''CRITICAL'', ''FATAL'', ''ERROR'', ''WARN'', ''WARNING'', ''INFO'', ''DEBUG'', ''NOTSET'']"

text \<open>Lines 90-96.\<close>

definition configure_logging :: "config \<Rightarrow> action list" where
  "configure_logging cfg =
     (case loglevel cfg of
        None \<Rightarrow> [Log Warning ''Log level not configured.  Defaulting to WARNING.  Caught: '']
      | Some l \<Rightarrow>
          if ascii_upper l \<in> set level_names then [BasicConfig (ascii_upper l)]
          else [Log Warning ''Log level not configured.  Defaulting to WARNING.''])"

text \<open>
  The environment of one run: the outcome of the \<open>k\<close>-th \<^verbatim>\<open>self.connect\<close>, and the ticks of the
  steady state.
\<close>

record env =
  connect_result :: "nat \<Rightarrow> outcome"
  ticks :: "tick list"

definition initial_state :: sup_state where
  "initial_state =
     \<lparr>running = True, loop_count = 0, reconnect_flag = False, loop_reconnect_count = 0,
      self_reconnect_flag = None\<rparr>"

definition run :: "lib \<Rightarrow> config \<Rightarrow> env \<Rightarrow> run_result \<times> action list" where
  "run L cfg ev =
     (if mqtt_max_loop_reconnect cfg < 1 then
        (Raised (SystemExit 1),
         configure_logging cfg @
         [Log Critical ''MQTT maximum reconnect tries can not be less than 1.''])
      else if mqtt_max_startup cfg < 1 then
        (Raised (SystemExit 1),
         configure_logging cfg @
         [Log Critical ''MQTT maximum startup count can not be less than 1.''])
      else if mqtt_max_reconnects cfg < 1 then
        (Raised (SystemExit 1),
         configure_logging cfg @
         [Log Critical ''MQTT maximum reconnect count can not be less than 1.''])
      else
        (case startup_loop cfg (connect_result ev) 0 of
           (Some e, startup_count, acts) \<Rightarrow> (Raised e, configure_logging cfg @ acts)
         | (None, startup_count, acts) \<Rightarrow>
             if mqtt_max_startup cfg \<le> startup_count then
               (Raised (SystemExit 1),
                configure_logging cfg @ acts @
                [Log Critical ''Too many startup tries. Exiting after try ''])
             else
               (case steady_loop L cfg initial_state (ticks ev) of
                  (r, st, acts') \<Rightarrow>
                    (r, configure_logging cfg @ acts @ [Log Info ''Startup success.''] @ acts'))))"

text \<open>The status the process ends with, when it has ended.\<close>

fun process_status :: "run_result \<Rightarrow> int option" where
  "process_status (Raised e) = Some (exit_status e)"
| "process_status Running = None"

section \<open>Counting actions\<close>

fun is_connect :: "action \<Rightarrow> bool" where
  "is_connect (Connect h p t) = True"
| "is_connect _ = False"

fun is_reconnect :: "action \<Rightarrow> bool" where
  "is_reconnect Reconnect = True"
| "is_reconnect _ = False"

fun is_warning :: "action \<Rightarrow> bool" where
  "is_warning (Log Warning m) = True"
| "is_warning _ = False"

text \<open>A call of the transport client.\<close>

fun is_network :: "action \<Rightarrow> bool" where
  "is_network (Connect h p t) = True"
| "is_network Reconnect = True"
| "is_network Loop = True"
| "is_network (Subscribe t) = True"
| "is_network (Publish t d) = True"
| "is_network _ = False"

definition connect_attempts :: "action list \<Rightarrow> nat" where
  "connect_attempts acts = length (filter is_connect acts)"

definition reconnect_attempts :: "action list \<Rightarrow> nat" where
  "reconnect_attempts acts = length (filter is_reconnect acts)"

definition warnings :: "action list \<Rightarrow> nat" where
  "warnings acts = length (filter is_warning acts)"

section \<open>Example inputs\<close>

text \<open>A configuration with the default ceilings (10 each) and two conversion pairs.\<close>

definition example_config :: config where
  "example_config =
     \<lparr>name = ''nofp'', description = ''bridge'', mqtt_broker = ''localhost'', mqtt_port = 1883,
      mqtt_timeout = 60, topic = ''hal/sensors'',
      param_conv = [(''temp'', ''t''), (''hum'', ''h'')],
      mqtt_max_reconnects = 10, mqtt_max_startup = 10, mqtt_max_loop_reconnect = 10,
      loglevel = None\<rparr>"

text \<open>
  A library for the examples. It decodes four payloads,
  \<^verbatim>\<open>{"temp": 12.345, "hum": -0.0004}\<close>, \<^verbatim>\<open>{"temp": 3}\<close>, \<^verbatim>\<open>{"temp": 3, "hum": true}\<close> and
  \<^verbatim>\<open>{"v": -0.0004}\<close>, and takes anything else not to be JSON; its publish and subscribe raise
  \<^verbatim>\<open>ValueError\<close> for a topic with a wildcard character (\<^verbatim>\<open>+\<close> or \<^verbatim>\<open>#\<close>) and return otherwise.
\<close>

definition has_wildcard :: "string \<Rightarrow> bool" where
  "has_wildcard t = (CHR ''+'' \<in> set t \<or> CHR ''#'' \<in> set t)"

definition example_lib :: lib where
  "example_lib =
     \<lparr>json_loads = (\<lambda>p.
        if p = ''{\"temp\": 12.345, \"hum\": -0.0004}'' then
          Inr (JDict [(''temp'', JFloat (float_of_decimal False 12345 (- 3))),
                      (''hum'', JFloat (float_of_decimal True 4 (- 4)))])
        else if p = ''{\"temp\": 3}'' then Inr (JDict [(''temp'', JInt 3)])
        else if p = ''{\"temp\": 3, \"hum\": true}'' then
          Inr (JDict [(''temp'', JInt 3), (''hum'', JBool True)])
        else if p = ''{\"v\": -0.0004}'' then
          Inr (JDict [(''v'', JFloat (float_of_decimal True 4 (- 4)))])
        else Inl ValueError),
      float_of_str = (\<lambda>s. None),
      publish_result = (\<lambda>t d. if has_wildcard t then Raises ValueError else Ok),
      subscribe_result = (\<lambda>t. if has_wildcard t then Raises ValueError else Ok)\<rparr>"

text \<open>A tick in which nothing arrives, ending as given.\<close>

definition idle_tick :: "outcome \<Rightarrow> tick" where
  "idle_tick r = \<lparr>reconnect_result = Ok, signal = False, callbacks = [], loop_result = r\<rparr>"

section \<open>Recursive equations\<close>

text \<open>The equations of the loops are unfolded where a proof asks for them.\<close>

declare startup_loop.simps [simp del]
declare reconnect_loop.simps [simp del]
declare bit_length.simps [simp del]
declare show_nat.simps [simp del]

section \<open>Facts about the model\<close>

lemma loop_error_message_raises: "loop_error_message c m = Inl TypeError"
  by (simp add: loop_error_message_def)

lemma logging_has_no_logging: "logging_getattr ''logging'' = Inl AttributeError"
  by (simp add: logging_getattr_def logging_attributes_def)

lemma startup_loop_first_connect:
  assumes "c < mqtt_max_startup cfg"
  shows "\<exists>r c' acts. startup_loop cfg cr c =
           (r, c', Connect (mqtt_broker cfg) (mqtt_port cfg) (mqtt_timeout cfg) # acts)"
  using assms
  by (subst startup_loop.simps) (simp add: Let_def split: outcome.splits prod.splits)

lemma startup_loop_all_fail:
  assumes "0 \<le> c" and "c \<le> mqtt_max_startup cfg"
    and "\<forall>k. nat c < k \<and> k \<le> nat (mqtt_max_startup cfg) \<longrightarrow> (\<exists>e. cr k = Raises e \<and> is_OSError e)"
  shows "\<exists>acts. startup_loop cfg cr c = (None, mqtt_max_startup cfg, acts) \<and>
           connect_attempts acts = nat (mqtt_max_startup cfg - c)"
  using assms
proof (induction cfg cr c rule: startup_loop.induct)
  case (1 cfg cr c)
  show ?case
  proof (cases "c < mqtt_max_startup cfg")
    case False
    with "1.prems" have "c = mqtt_max_startup cfg" by simp
    then show ?thesis by (simp add: startup_loop.simps connect_attempts_def)
  next
    case True
    have "nat c < nat (c + 1) \<and> nat (c + 1) \<le> nat (mqtt_max_startup cfg)"
      using True "1.prems"(1) by simp
    with "1.prems"(3) obtain e where e: "cr (nat (c + 1)) = Raises e" "is_OSError e"
      by blast
    have p1: "0 \<le> c + 1" using "1.prems"(1) by simp
    have p2: "c + 1 \<le> mqtt_max_startup cfg" using True by simp
    have p3: "\<forall>k. nat (c + 1) < k \<and> k \<le> nat (mqtt_max_startup cfg) \<longrightarrow> (\<exists>e. cr k = Raises e \<and> is_OSError e)"
    proof (intro allI impI)
      fix k assume "nat (c + 1) < k \<and> k \<le> nat (mqtt_max_startup cfg)"
      then have "nat c < k \<and> k \<le> nat (mqtt_max_startup cfg)" by linarith
      then show "\<exists>e. cr k = Raises e \<and> is_OSError e" using "1.prems"(3) by blast
    qed
    have "\<exists>acts. startup_loop cfg cr (c + 1) = (None, mqtt_max_startup cfg, acts) \<and>
            connect_attempts acts = nat (mqtt_max_startup cfg - (c + 1))"
      using "1.IH"[OF True refl refl e(1) e(2) p1 p2 p3] .
    then obtain acts where acts: "startup_loop cfg cr (c + 1) = (None, mqtt_max_startup cfg, acts)"
      "connect_attempts acts = nat (mqtt_max_startup cfg - (c + 1))" by blast
    have n: "nat (mqtt_max_startup cfg - c) = Suc (nat (mqtt_max_startup cfg - (c + 1)))"
      using True by simp
    show ?thesis
      by (subst startup_loop.simps) (simp add: Let_def connect_attempts_def True e acts[unfolded connect_attempts_def] n)
  qed
qed

lemma on_loop_exception_not_Continue: "fst (on_loop_exception cfg st e) \<noteq> Continue"
  by (cases e)
    (simp_all add: on_loop_exception_def loop_error_message_raises logging_has_no_logging Let_def)

lemma iteration_Continue:
  assumes "iteration L cfg st t = (Continue, st', acts)"
  shows "try_body L cfg
           (st\<lparr>loop_count := (if 65535 \<le> loop_count st then 0 else loop_count st + 1)\<rparr>) t =
         (None, st', acts)"
proof -
  let ?st = "st\<lparr>loop_count := (if 65535 \<le> loop_count st then 0 else loop_count st + 1)\<rparr>"
  obtain r s a where tb: "try_body L cfg ?st t = (r, s, a)"
    by (cases "try_body L cfg ?st t") auto
  show ?thesis
  proof (cases r)
    case None
    with tb assms show ?thesis by (simp add: iteration_def)
  next
    case (Some e)
    obtain c s' a' where h: "on_loop_exception cfg s e = (c, s', a')"
      by (cases "on_loop_exception cfg s e") auto
    with on_loop_exception_not_Continue[of cfg s e] have "c \<noteq> Continue" by simp
    with tb Some h assms show ?thesis by (simp add: iteration_def)
  qed
qed

lemma try_body_signal:
  assumes "try_body L cfg st t = (None, st', acts)" and "signal t"
  shows "\<not> running st' \<and> loop_reconnect_count st' = 0"
  using assms
  by (auto simp: try_body_def Let_def split: if_splits outcome.splits option.splits prod.splits)

lemma steady_loop_stopped:
  assumes "\<not> running st" and "loop_reconnect_count st < mqtt_max_loop_reconnect cfg"
  shows "steady_loop L cfg st ts =
           (Raised (SystemExit 0), st, [Log Info ''Successfully reached exit.''])"
  using assms by (cases ts) (simp_all add: after_loop_def)

lemmas float_eval =
  float_of_decimal_def float_of_int_def round_binary64_def binary_exponent_def scaled_def
  bit_length.simps round_half_even_def show_nat.simps thousand_def Let_def

lemma convert_all_published:
  assumes "\<forall>p\<in>set ps. \<exists>f. field_value L rcv (fst p) = Inr f \<and>
             publish_result L (name cfg @ ''/'' @ snd p) (format_0f (fmul f thousand)) = Ok"
  shows "convert L cfg rcv ps =
           (None, map (\<lambda>p. Publish (name cfg @ ''/'' @ snd p)
                              (format_0f (fmul (projr (field_value L rcv (fst p))) thousand))) ps)"
  using assms by (induction ps) (auto simp: Let_def)

lemma convert_fails_at:
  assumes "\<forall>p\<in>set pre. \<exists>f. field_value L rcv (fst p) = Inr f \<and>
             publish_result L (name cfg @ ''/'' @ snd p) (format_0f (fmul f thousand)) = Ok"
    and "field_value L rcv (fst bad) = Inl e"
  shows "convert L cfg rcv (pre @ bad # rest) =
           (Some e, map (\<lambda>p. Publish (name cfg @ ''/'' @ snd p)
                                (format_0f (fmul (projr (field_value L rcv (fst p))) thousand))) pre)"
  using assms by (induction pre) (auto simp: Let_def)

lemma convert_no_warnings: "filter is_warning (snd (convert L cfg rcv ps)) = []"
  by (induction ps) (auto simp: Let_def split: sum.splits prod.splits outcome.splits)

lemma convert_fails_somewhere:
  assumes "p \<in> set ps" and "field_value L rcv (fst p) = Inl e"
  shows "\<exists>e'. fst (convert L cfg rcv ps) = Some e'"
  using assms by (induction ps) (auto simp: Let_def split: sum.splits prod.splits outcome.splits)

lemma on_message_returns: "fst (on_message L cfg tp payload) = None"
  by (simp add: on_message_def split: sum.splits prod.splits option.splits)

lemma run_callbacks_skip_message:
  "fst (run_callbacks L cfg (cbs @ OnMessage tp payload # cbs')) =
   fst (run_callbacks L cfg (cbs @ cbs'))"
proof (induction cbs)
  case Nil
  obtain acts where "on_message L cfg tp payload = (None, acts)"
    using on_message_returns[of L cfg tp payload] by (cases "on_message L cfg tp payload") auto
  then show ?case by (simp split: prod.splits)
next
  case (Cons cb cbs)
  then show ?case by (auto split: prod.splits option.splits)
qed

lemma loop_call_skip_message:
  "fst (loop_call L cfg (t\<lparr>callbacks := cbs @ OnMessage tp payload # cbs'\<rparr>)) =
   fst (loop_call L cfg (t\<lparr>callbacks := cbs @ cbs'\<rparr>))"
  using run_callbacks_skip_message[of L cfg cbs tp payload cbs']
  by (auto simp: loop_call_def split: prod.splits option.splits outcome.splits)

lemma try_body_same_control:
  assumes "fst (loop_call L cfg t) = fst (loop_call L cfg t')"
    and "reconnect_result t = reconnect_result t'" and "signal t = signal t'"
  shows "fst (try_body L cfg st t) = fst (try_body L cfg st t') \<and>
         fst (snd (try_body L cfg st t)) = fst (snd (try_body L cfg st t'))"
  using assms
  by (cases "loop_call L cfg t"; cases "loop_call L cfg t'")
    (auto simp: try_body_def Let_def split: outcome.splits option.splits)

lemma iteration_same_control:
  assumes "fst (loop_call L cfg t) = fst (loop_call L cfg t')"
    and "reconnect_result t = reconnect_result t'" and "signal t = signal t'"
  shows "fst (iteration L cfg st t) = fst (iteration L cfg st t') \<and>
         fst (snd (iteration L cfg st t)) = fst (snd (iteration L cfg st t'))"
proof -
  let ?st = "st\<lparr>loop_count := (if 65535 \<le> loop_count st then 0 else loop_count st + 1)\<rparr>"
  from try_body_same_control[OF assms, of ?st]
  show ?thesis
    by (cases "try_body L cfg ?st t"; cases "try_body L cfg ?st t'")
      (auto simp: iteration_def split: option.splits prod.splits)
qed

lemma round_half_even_nearest:
  assumes "0 < b"
  shows "\<bar>real (round_half_even a b) - real a / real b\<bar> \<le> 1 / 2 \<and>
         (\<bar>real (round_half_even a b) - real a / real b\<bar> = 1 / 2 \<longrightarrow>
            even (round_half_even a b))"
proof -
  define q r where "q = a div b" and "r = a mod b"
  define D where "D = \<bar>real (round_half_even a b) - real a / real b\<bar>"
  have "a = q * b + r" by (simp add: q_def r_def)
  then have "real a = real q * real b + real r"
    by (metis of_nat_add of_nat_mult)
  then have frac: "real a / real b = real q + real r / real b"
    using assms by (simp add: field_simps)
  have rb: "r < b" using assms by (simp add: r_def)
  have nonneg: "0 \<le> real r / real b" by simp
  consider "2 * r < b" | "b < 2 * r" | "2 * r = b" by linarith
  then have "D \<le> 1 / 2 \<and> (D = 1 / 2 \<longrightarrow> even (round_half_even a b))"
  proof cases
    case 1
    then have "real (2 * r) < real b" by (simp only: of_nat_less_iff)
    then have lt: "real r / real b < 1 / 2" using assms by (simp add: field_simps)
    have "round_half_even a b = q"
      using 1 by (simp add: round_half_even_def Let_def q_def r_def)
    then have "D = real r / real b" using frac nonneg by (simp add: D_def)
    with lt have "D < 1 / 2" by (simp only:)
    then show ?thesis by simp
  next
    case 2
    then have "real b < real (2 * r)" by (simp only: of_nat_less_iff)
    then have gt: "1 / 2 < real r / real b" using assms by (simp add: field_simps)
    have lt1: "real r / real b < 1" using rb assms by simp
    have "round_half_even a b = q + 1"
      using 2 by (simp add: round_half_even_def Let_def q_def r_def)
    then have "D = 1 - real r / real b" using frac lt1 by (simp add: D_def)
    with gt have "D < 1 / 2" by linarith
    then show ?thesis by simp
  next
    case 3
    then have "real (2 * r) = real b" by simp
    then have h: "real r / real b = 1 / 2" using assms by (simp add: field_simps)
    have n: "round_half_even a b = (if even q then q else q + 1)"
      using 3 by (simp add: round_half_even_def Let_def q_def r_def)
    show ?thesis
    proof (cases "even q")
      case True
      with n have "round_half_even a b = q" by simp
      then have "D = 1 / 2" using frac h by (simp add: D_def)
      with True \<open>round_half_even a b = q\<close> show ?thesis by simp
    next
      case False
      with n have e: "round_half_even a b = q + 1" by simp
      then have "D = 1 / 2" using frac h by (simp add: D_def)
      with False e show ?thesis by simp
    qed
  qed
  then show ?thesis unfolding D_def .
qed

lemma scaled_magnitude:
  assumes "scaled m 1 (- e) = (a, b)"
  shows "0 < b \<and> real a / real b = magnitude m e"
proof (cases "0 \<le> - e")
  case True
  with assms have a: "a = m" and b: "b = 2 ^ nat (- e)"
    by (simp_all add: scaled_def)
  have "e \<le> 0" using True by simp
  then have "(2::real) powi e = 1 / 2 ^ nat (- e)"
    by (cases "e = 0") (simp_all add: power_int_def field_simps)
  with a b show ?thesis by (simp add: magnitude_def)
next
  case False
  with assms have a: "a = m * 2 ^ nat e" and b: "b = 1"
    by (simp_all add: scaled_def)
  have "0 \<le> e" using False by simp
  then have "(2::real) powi e = 2 ^ nat e" by (simp add: power_int_def)
  with a b show ?thesis by (simp add: magnitude_def)
qed

lemma show_nat_digits: "show_nat n \<noteq> [] \<and> set (show_nat n) \<subseteq> set ''0123456789''"
proof (induction n rule: show_nat.induct)
  case (1 n)
  have d: "''0123456789'' ! k \<in> set ''0123456789''" if "k < 10" for k
    using that by (intro nth_mem) simp
  show ?case
  proof (cases "n < 10")
    case True
    then show ?thesis using d[of n] by (subst (1 2) show_nat.simps) simp
  next
    case False
    have "n mod 10 < 10" by simp
    with False "1.IH" d[of "n mod 10"] show ?thesis
      by (subst (1 2) show_nat.simps) simp
  qed
qed

lemma format_0f_finite:
  "\<exists>n. format_0f (Finite s m e) = (if s then ''-'' else []) @ show_nat n \<and>
        set (show_nat n) \<subseteq> set ''0123456789'' \<and>
        \<bar>real n - magnitude m e\<bar> \<le> 1 / 2 \<and>
        (\<bar>real n - magnitude m e\<bar> = 1 / 2 \<longrightarrow> even n)"
proof -
  obtain a b where ab: "scaled m 1 (- e) = (a, b)" by (cases "scaled m 1 (- e)") auto
  from scaled_magnitude[OF ab] have b: "0 < b" and v: "real a / real b = magnitude m e"
    by simp_all
  from round_half_even_nearest[OF b, of a] v show_nat_digits[of "round_half_even a b"] ab
  show ?thesis
    by (intro exI[of _ "round_half_even a b"]) simp
qed

section \<open>The claims\<close>

text \<open>
  C1. A tick that raises an exception that is neither \<^verbatim>\<open>SystemExit\<close> nor a timeout or connection
  error reaches the bare \<^verbatim>\<open>except:\<close> clause, whose first statement reads \<^verbatim>\<open>logging.logging\<close>: the
  \<^verbatim>\<open>AttributeError\<close> leaves \<^verbatim>\<open>run\<close>, \<^verbatim>\<open>exit(2)\<close> is not reached, and the process status is 1.
\<close>

theorem unexpected_tick_fault_exits_1:
  "run example_lib example_config
     \<lparr>connect_result = (\<lambda>k. Ok), ticks = [idle_tick (Raises ValueError), idle_tick Ok]\<rparr> =
     (Raised AttributeError,
      [Log Warning ''Log level not configured.  Defaulting to WARNING.  Caught: '',
       Connect ''localhost'' 1883 60, AtexitRegister, Log Info ''Startup success.'', Loop]) \<and>
   process_status (Raised AttributeError) = Some 1"
  by (simp add: run_def example_config_def configure_logging_def startup_loop.simps initial_state_def
      idle_tick_def iteration_def try_body_def loop_call_def on_loop_exception_def
      logging_has_no_logging)

text \<open>
  C2. A tick that raises \<^verbatim>\<open>TimeoutError\<close>: the handler increments \<^verbatim>\<open>loop_reconnect_count\<close> to 1 and
  sets \<^verbatim>\<open>reconnect_flag\<close>, and then the argument of its \<^verbatim>\<open>logging.error\<close> call adds an \<^verbatim>\<open>int\<close> to a
  \<^verbatim>\<open>str\<close>: the \<^verbatim>\<open>TypeError\<close> leaves \<^verbatim>\<open>run\<close>. The loop does not continue: the next tick is not driven
  and \<^verbatim>\<open>self.reconnect\<close> is not called.
\<close>

theorem transient_tick_fault_ends_run:
  "steady_loop example_lib example_config initial_state
     [idle_tick (Raises TimeoutError), idle_tick Ok] =
     (Raised TypeError,
      initial_state\<lparr>loop_count := 1, loop_reconnect_count := 1, reconnect_flag := True\<rparr>,
      [Loop]) \<and>
   run example_lib example_config
     \<lparr>connect_result = (\<lambda>k. Ok), ticks = [idle_tick (Raises TimeoutError), idle_tick Ok]\<rparr> =
     (Raised TypeError,
      [Log Warning ''Log level not configured.  Defaulting to WARNING.  Caught: '',
       Connect ''localhost'' 1883 60, AtexitRegister, Log Info ''Startup success.'', Loop])"
  by (simp add: run_def example_config_def configure_logging_def startup_loop.simps initial_state_def
      idle_tick_def iteration_def try_body_def loop_call_def on_loop_exception_def
      loop_error_message_raises)

text \<open>
  C3. With a startup ceiling of at least 1 the startup loop calls \<^verbatim>\<open>self.connect\<close> at least once,
  whatever the environment does; \<^verbatim>\<open>run\<close> reaches that loop when the other two ceilings are at
  least 1 as well. When each of the first \<open>N\<close> calls raises an \<^verbatim>\<open>OSError\<close>, \<open>N\<close> being the startup
  ceiling, \<^verbatim>\<open>run\<close> ends in \<^verbatim>\<open>exit(1)\<close> and has called \<^verbatim>\<open>self.connect\<close> exactly \<open>N\<close> times.
\<close>

theorem startup_exhaustion_exits_1:
  assumes "1 \<le> mqtt_max_startup cfg"
  shows "1 \<le> connect_attempts (snd (snd (startup_loop cfg (connect_result ev) 0))) \<and>
         (1 \<le> mqtt_max_loop_reconnect cfg \<and> 1 \<le> mqtt_max_reconnects cfg \<longrightarrow>
            1 \<le> connect_attempts (snd (run L cfg ev)) \<and>
            ((\<forall>k. 1 \<le> k \<and> k \<le> nat (mqtt_max_startup cfg) \<longrightarrow>
                  (\<exists>e. connect_result ev k = Raises e \<and> is_OSError e)) \<longrightarrow>
             fst (run L cfg ev) = Raised (SystemExit 1) \<and>
             process_status (fst (run L cfg ev)) = Some 1 \<and>
             connect_attempts (snd (run L cfg ev)) = nat (mqtt_max_startup cfg)))"
proof (intro conjI impI)
  have "0 < mqtt_max_startup cfg" using assms by simp
  from startup_loop_first_connect[OF this]
  obtain r c acts where s: "startup_loop cfg (connect_result ev) 0 =
      (r, c, Connect (mqtt_broker cfg) (mqtt_port cfg) (mqtt_timeout cfg) # acts)"
    by blast
  then show "1 \<le> connect_attempts (snd (snd (startup_loop cfg (connect_result ev) 0)))"
    by (simp add: connect_attempts_def)
  assume valid: "1 \<le> mqtt_max_loop_reconnect cfg \<and> 1 \<le> mqtt_max_reconnects cfg"
  show "1 \<le> connect_attempts (snd (run L cfg ev))"
    using assms valid s
    by (cases r) (simp_all add: run_def connect_attempts_def split: prod.splits)
  assume fails: "\<forall>k. 1 \<le> k \<and> k \<le> nat (mqtt_max_startup cfg) \<longrightarrow>
               (\<exists>e. connect_result ev k = Raises e \<and> is_OSError e)"
  then have "\<forall>k. nat 0 < k \<and> k \<le> nat (mqtt_max_startup cfg) \<longrightarrow>
               (\<exists>e. connect_result ev k = Raises e \<and> is_OSError e)"
    by simp
  with startup_loop_all_fail[of 0 cfg "connect_result ev"] assms
  obtain acts' where a: "startup_loop cfg (connect_result ev) 0 = (None, mqtt_max_startup cfg, acts')"
    "connect_attempts acts' = nat (mqtt_max_startup cfg)"
    by auto
  have l: "connect_attempts (configure_logging cfg) = 0"
    by (simp add: connect_attempts_def configure_logging_def split: option.splits)
  from a l assms valid show "fst (run L cfg ev) = Raised (SystemExit 1)"
    by (simp add: run_def)
  then show "process_status (fst (run L cfg ev)) = Some 1" by simp
  from a l assms valid show "connect_attempts (snd (run L cfg ev)) = nat (mqtt_max_startup cfg)"
    by (simp add: run_def connect_attempts_def)
qed

theorem startup_exhaustion_exits_1_witness:
  "1 \<le> connect_attempts (snd (snd (startup_loop (example_config\<lparr>mqtt_max_startup := 2\<rparr>)
          (\<lambda>k. Raises ConnectionError) 0))) \<and>
   1 \<le> connect_attempts (snd (run example_lib (example_config\<lparr>mqtt_max_startup := 2\<rparr>)
          \<lparr>connect_result = (\<lambda>k. Raises ConnectionError), ticks = []\<rparr>)) \<and>
   fst (run example_lib (example_config\<lparr>mqtt_max_startup := 2\<rparr>)
          \<lparr>connect_result = (\<lambda>k. Raises ConnectionError), ticks = []\<rparr>) = Raised (SystemExit 1) \<and>
   connect_attempts (snd (run example_lib (example_config\<lparr>mqtt_max_startup := 2\<rparr>)
          \<lparr>connect_result = (\<lambda>k. Raises ConnectionError), ticks = []\<rparr>)) = 2"
  using startup_exhaustion_exits_1[where cfg = "example_config\<lparr>mqtt_max_startup := 2\<rparr>"
      and L = example_lib
      and ev = "\<lparr>connect_result = (\<lambda>k. Raises ConnectionError), ticks = []\<rparr>"]
  by (simp add: example_config_def)

text \<open>
  C4. A connect that succeeds on the last attempt the ceiling permits leaves
  \<^verbatim>\<open>startup_count\<close> equal to the ceiling, and the test after the loop ends \<^verbatim>\<open>run\<close> in \<^verbatim>\<open>exit(1)\<close>:
  with ceiling 1 and a first connect that succeeds, and with ceiling 3, two failures and a
  success. No tick is driven.
\<close>

theorem success_on_last_attempt_exits_1:
  "run example_lib (example_config\<lparr>mqtt_max_startup := 1\<rparr>)
     \<lparr>connect_result = (\<lambda>k. Ok), ticks = [idle_tick Ok]\<rparr> =
     (Raised (SystemExit 1),
      [Log Warning ''Log level not configured.  Defaulting to WARNING.  Caught: '',
       Connect ''localhost'' 1883 60, AtexitRegister,
       Log Critical ''Too many startup tries. Exiting after try '']) \<and>
   run example_lib (example_config\<lparr>mqtt_max_startup := 3\<rparr>)
     \<lparr>connect_result = (\<lambda>k. if k < 3 then Raises OSError else Ok), ticks = [idle_tick Ok]\<rparr> =
     (Raised (SystemExit 1),
      [Log Warning ''Log level not configured.  Defaulting to WARNING.  Caught: '',
       Connect ''localhost'' 1883 60, Log Error ''Error connecting on bootup.'',
       Log Error traceback, Wait 30,
       Connect ''localhost'' 1883 60, Log Error ''Error connecting on bootup.'',
       Log Error traceback, Wait 30,
       Connect ''localhost'' 1883 60, AtexitRegister,
       Log Critical ''Too many startup tries. Exiting after try ''])"
  by (simp add: run_def example_config_def configure_logging_def startup_loop.simps)

text \<open>
  C5. In \<^verbatim>\<open>on_disconnect\<close> with a non-zero reason code, a reconnect that succeeds on the last
  attempt the ceiling permits is followed by \<^verbatim>\<open>exit(1)\<close> (ceiling 1, first reconnect succeeds).
  And when the ceiling is exhausted in a callback that a steady-state tick invokes, the
  \<^verbatim>\<open>SystemExit\<close> is caught at line 139 and \<^verbatim>\<open>run\<close> ends in \<^verbatim>\<open>exit(0)\<close>.
\<close>

theorem reconnect_on_last_attempt_exits:
  "on_disconnect (example_config\<lparr>mqtt_max_reconnects := 1\<rparr>) 1 (\<lambda>k. Ok) =
     (Some (SystemExit 1),
      [Log Warning ''MQTT Disconnected: '',
       Log Error ''Unexpected disconnection.  Attempting reconnection.'',
       Reconnect, Log Critical ''Too many reconnect tries.  Exiting.'']) \<and>
   fst (run example_lib (example_config\<lparr>mqtt_max_reconnects := 2\<rparr>)
     \<lparr>connect_result = (\<lambda>k. Ok),
      ticks = [\<lparr>reconnect_result = Ok, signal = False,
                callbacks = [OnDisconnect 1 (\<lambda>k. Raises ConnectionError)], loop_result = Ok\<rparr>]\<rparr>) =
     Raised (SystemExit 0)"
  by (simp add: on_disconnect_def run_def example_config_def configure_logging_def
      startup_loop.simps reconnect_loop.simps initial_state_def iteration_def try_body_def
      loop_call_def on_loop_exception_def after_loop_def)

text \<open>
  C6. At the loop's iteration boundary, with \<^verbatim>\<open>self.running\<close> false and \<^verbatim>\<open>loop_reconnect_count\<close>
  below its ceiling, the loop is left and \<^verbatim>\<open>run\<close> ends in \<^verbatim>\<open>exit(0)\<close>, having done nothing but log the
  clean exit: no tick is driven and no reconnect is made, also when the pending-reconnect flag
  is set. And when the signal handler runs during a tick that completes, the flag is false at the
  next boundary, so \<^verbatim>\<open>run\<close> ends in \<^verbatim>\<open>exit(0)\<close> right after that iteration.
\<close>

theorem stop_flag_exits_0:
  "(\<not> running st \<and> loop_reconnect_count st < mqtt_max_loop_reconnect cfg \<longrightarrow>
      steady_loop L cfg st ts =
        (Raised (SystemExit 0), st, [Log Info ''Successfully reached exit.'']) \<and>
      process_status (fst (steady_loop L cfg st ts)) = Some 0) \<and>
   (running st \<and> loop_reconnect_count st < mqtt_max_loop_reconnect cfg \<and>
    1 \<le> mqtt_max_loop_reconnect cfg \<and> signal t \<and> iteration L cfg st t = (Continue, st', acts) \<longrightarrow>
      \<not> running st' \<and>
      steady_loop L cfg st (t # ts) =
        (Raised (SystemExit 0), st', acts @ [Log Info ''Successfully reached exit.'']))"
proof (intro conjI impI)
  assume a: "\<not> running st \<and> loop_reconnect_count st < mqtt_max_loop_reconnect cfg"
  then show "steady_loop L cfg st ts =
        (Raised (SystemExit 0), st, [Log Info ''Successfully reached exit.''])"
    by (simp add: steady_loop_stopped)
  then show "process_status (fst (steady_loop L cfg st ts)) = Some 0" by simp
next
  assume b: "running st \<and> loop_reconnect_count st < mqtt_max_loop_reconnect cfg \<and>
    1 \<le> mqtt_max_loop_reconnect cfg \<and> signal t \<and> iteration L cfg st t = (Continue, st', acts)"
  then have s: "\<not> running st' \<and> loop_reconnect_count st' = 0"
    using try_body_signal[OF iteration_Continue] by blast
  then show "\<not> running st'" by simp
  have "loop_reconnect_count st' < mqtt_max_loop_reconnect cfg" using s b by simp
  with s have "steady_loop L cfg st' ts =
      (Raised (SystemExit 0), st', [Log Info ''Successfully reached exit.''])"
    by (simp add: steady_loop_stopped)
  with b show "steady_loop L cfg st (t # ts) =
        (Raised (SystemExit 0), st', acts @ [Log Info ''Successfully reached exit.''])"
    by simp
qed

theorem stop_flag_exits_0_witness:
  "steady_loop example_lib example_config (initial_state\<lparr>running := False, reconnect_flag := True\<rparr>)
     [idle_tick Ok] =
     (Raised (SystemExit 0), initial_state\<lparr>running := False, reconnect_flag := True\<rparr>,
      [Log Info ''Successfully reached exit.'']) \<and>
   steady_loop example_lib example_config initial_state
     [(idle_tick Ok)\<lparr>signal := True\<rparr>, idle_tick Ok] =
     (Raised (SystemExit 0), initial_state\<lparr>running := False, loop_count := 1\<rparr>,
      [Loop, Log Warning ''Caught a deadly signal: '', Log Info ''Successfully reached exit.''])"
  using stop_flag_exits_0[of "initial_state\<lparr>running := False, reconnect_flag := True\<rparr>"
      example_config example_lib "[idle_tick Ok]"]
    stop_flag_exits_0[of initial_state example_config example_lib "[idle_tick Ok]"
      "(idle_tick Ok)\<lparr>signal := True\<rparr>" "initial_state\<lparr>running := False, loop_count := 1\<rparr>"
      "[Loop, Log Warning ''Caught a deadly signal: '']"]
  by (simp add: example_config_def initial_state_def idle_tick_def iteration_def try_body_def
      loop_call_def)

text \<open>
  C7. When one of the three ceilings is less than 1, \<^verbatim>\<open>run\<close> ends in \<^verbatim>\<open>exit(1)\<close> and has made no
  call of the transport client: no \<^verbatim>\<open>connect\<close> in particular.
\<close>

theorem invalid_ceiling_exits_before_network:
  assumes "mqtt_max_startup cfg < 1 \<or> mqtt_max_loop_reconnect cfg < 1 \<or> mqtt_max_reconnects cfg < 1"
  shows "fst (run L cfg ev) = Raised (SystemExit 1) \<and>
         process_status (fst (run L cfg ev)) = Some 1 \<and>
         filter is_network (snd (run L cfg ev)) = [] \<and>
         connect_attempts (snd (run L cfg ev)) = 0"
proof -
  have "filter is_network (configure_logging cfg) = []"
    and "filter is_connect (configure_logging cfg) = []"
    by (simp_all add: configure_logging_def split: option.splits)
  with assms show ?thesis
    by (auto simp: run_def connect_attempts_def)
qed

theorem invalid_ceiling_exits_before_network_witness:
  "fst (run example_lib (example_config\<lparr>mqtt_max_reconnects := 0\<rparr>)
          \<lparr>connect_result = (\<lambda>k. Ok), ticks = [idle_tick Ok]\<rparr>) = Raised (SystemExit 1) \<and>
   filter is_network (snd (run example_lib (example_config\<lparr>mqtt_max_reconnects := 0\<rparr>)
          \<lparr>connect_result = (\<lambda>k. Ok), ticks = [idle_tick Ok]\<rparr>)) = []"
  using invalid_ceiling_exits_before_network[of "example_config\<lparr>mqtt_max_reconnects := 0\<rparr>"
      example_lib "\<lparr>connect_result = (\<lambda>k. Ok), ticks = [idle_tick Ok]\<rparr>"]
  by (simp add: example_config_def)

text \<open>
  C8. The claim as stated fails: a payload that is not JSON makes \<^verbatim>\<open>on_message\<close> call
  \<^verbatim>\<open>logging.warn\<close> twice (the failure message on line 56, the traceback on line 57), not once.
\<close>

theorem malformed_message_one_warning_counterexample:
  "on_message example_lib example_config ''hal/sensors'' ''not json'' =
     (None, [Log Warning ''Message failed to parse: '', Log Warning traceback]) \<and>
   warnings (snd (on_message example_lib example_config ''hal/sensors'' ''not json'')) \<noteq> 1"
  by (simp add: on_message_def example_lib_def example_config_def warnings_def)

text \<open>
  C8, amended. For a message on the subscribed topic whose payload does not decode, or decodes
  to a value in which, for some configured pair, the lookup of the field or \<^verbatim>\<open>float\<close> of its value
  raises (the field is absent, the decoded value is not a \<^verbatim>\<open>dict\<close>, the value is \<^verbatim>\<open>None\<close>, a list, a
  \<^verbatim>\<open>dict\<close>, a string \<^verbatim>\<open>float\<close> rejects, or an integer too large; a boolean and a string \<^verbatim>\<open>float\<close>
  accepts are converted): no exception leaves \<^verbatim>\<open>on_message\<close>; it makes exactly two warning-level
  logging calls; and the iteration of the steady-state loop whose tick delivers the message ends
  the same way (continue, break or abort) and in the same state (\<^verbatim>\<open>loop_reconnect_count\<close>,
  \<^verbatim>\<open>running\<close>, the flags) as it does without the message. This holds whatever
  \<^verbatim>\<open>self.publish\<close> does for the pairs before the failing one.
\<close>

theorem malformed_message_is_contained:
  assumes "json_loads L payload = Inl e \<or>
           (json_loads L payload = Inr rcv \<and> p \<in> set (param_conv cfg) \<and>
            field_value L rcv (fst p) = Inl e)"
  shows "fst (on_message L cfg (topic cfg) payload) = None \<and>
         warnings (snd (on_message L cfg (topic cfg) payload)) = 2 \<and>
         fst (iteration L cfg st (t\<lparr>callbacks := cbs @ OnMessage (topic cfg) payload # cbs'\<rparr>)) =
           fst (iteration L cfg st (t\<lparr>callbacks := cbs @ cbs'\<rparr>)) \<and>
         fst (snd (iteration L cfg st (t\<lparr>callbacks := cbs @ OnMessage (topic cfg) payload # cbs'\<rparr>))) =
           fst (snd (iteration L cfg st (t\<lparr>callbacks := cbs @ cbs'\<rparr>)))"
proof -
  have w: "warnings (snd (on_message L cfg (topic cfg) payload)) = 2"
    using assms
  proof
    assume "json_loads L payload = Inl e"
    then show ?thesis by (simp add: on_message_def warnings_def)
  next
    assume a: "json_loads L payload = Inr rcv \<and> p \<in> set (param_conv cfg) \<and>
            field_value L rcv (fst p) = Inl e"
    then obtain e' where "fst (convert L cfg rcv (param_conv cfg)) = Some e'"
      using convert_fails_somewhere by blast
    then obtain acts where c: "convert L cfg rcv (param_conv cfg) = (Some e', acts)"
      by (cases "convert L cfg rcv (param_conv cfg)") auto
    have "filter is_warning acts = []"
      using convert_no_warnings[of L cfg rcv "param_conv cfg"] c by simp
    with a c show ?thesis by (simp add: on_message_def warnings_def)
  qed
  have "fst (iteration L cfg st (t\<lparr>callbacks := cbs @ OnMessage (topic cfg) payload # cbs'\<rparr>)) =
           fst (iteration L cfg st (t\<lparr>callbacks := cbs @ cbs'\<rparr>)) \<and>
         fst (snd (iteration L cfg st (t\<lparr>callbacks := cbs @ OnMessage (topic cfg) payload # cbs'\<rparr>))) =
           fst (snd (iteration L cfg st (t\<lparr>callbacks := cbs @ cbs'\<rparr>)))"
    by (rule iteration_same_control) (simp_all add: loop_call_skip_message)
  with w on_message_returns[of L cfg "topic cfg" payload] show ?thesis by simp
qed

theorem malformed_message_is_contained_witness:
  "fst (on_message example_lib example_config ''hal/sensors'' ''not json'') = None \<and>
   warnings (snd (on_message example_lib example_config ''hal/sensors'' ''not json'')) = 2 \<and>
   fst (iteration example_lib example_config initial_state
          ((idle_tick Ok)\<lparr>callbacks := [OnMessage ''hal/sensors'' ''not json'']\<rparr>)) =
     fst (iteration example_lib example_config initial_state ((idle_tick Ok)\<lparr>callbacks := []\<rparr>)) \<and>
   fst (snd (iteration example_lib example_config initial_state
          ((idle_tick Ok)\<lparr>callbacks := [OnMessage ''hal/sensors'' ''not json'']\<rparr>))) =
     fst (snd (iteration example_lib example_config initial_state
          ((idle_tick Ok)\<lparr>callbacks := []\<rparr>))) \<and>
   warnings (snd (on_message example_lib example_config ''hal/sensors'' ''{\"temp\": 3}'')) = 2"
  using malformed_message_is_contained[where L = example_lib and payload = "''not json''"
      and e = ValueError and rcv = JNull and p = "(''temp'', ''t'')" and cfg = example_config
      and st = initial_state and t = "idle_tick Ok" and cbs = "[]" and cbs' = "[]"]
    malformed_message_is_contained[where L = example_lib and payload = "''{\"temp\": 3}''"
      and e = KeyError and rcv = "JDict [(''temp'', JInt 3)]" and p = "(''hum'', ''h'')"
      and cfg = example_config]
  by (simp add: example_lib_def example_config_def field_value_def)

text \<open>
  C9. The claim as stated fails at its own example: the field value \<open>-0.0004\<close> scales to the
  float \<open>-0.4\<close>, and \<^verbatim>\<open>format(-0.4, ".0f")\<close> is \<^verbatim>\<open>"-0"\<close>, not \<^verbatim>\<open>"0"\<close>.
\<close>

theorem negative_rounds_to_zero_counterexample:
  "on_message example_lib (example_config\<lparr>param_conv := [(''v'', ''x'')]\<rparr>) ''hal/sensors''
     ''{\"v\": -0.0004}'' =
     (None, [Publish ''nofp/x'' ''-0'']) \<and>
   on_message example_lib (example_config\<lparr>param_conv := [(''v'', ''x'')]\<rparr>) ''hal/sensors''
     ''{\"v\": -0.0004}'' \<noteq>
     (None, [Publish ''nofp/x'' ''0''])"
  by (simp add: on_message_def example_lib_def example_config_def field_value_def has_wildcard_def
      float_eval)

text \<open>
  C9, amended. For a message on the subscribed topic whose payload decodes to a value in which
  the field of every configured pair converts to a float, and for which every call of
  \<^verbatim>\<open>self.publish\<close> returns, \<^verbatim>\<open>on_message\<close> publishes, for each pair in the order of \<^verbatim>\<open>param_conv\<close>,
  to the topic \<^verbatim>\<open>name + "/" + suffix\<close> the payload \<^verbatim>\<open>format(v * 1000, ".0f")\<close>, and does nothing else.
  For a finite product the payload is a minus sign exactly when the product's sign bit is set
  (also when it rounds to zero), followed by the decimal digits of the integer nearest to the
  product's magnitude, a tie going to the even integer. For a product that is not finite the
  payload is \<^verbatim>\<open>"nan"\<close>, \<^verbatim>\<open>"inf"\<close> or \<^verbatim>\<open>"-inf"\<close>, and a field value that is not finite has such a
  product. The field value \<open>12.345\<close> gives \<^verbatim>\<open>"12345"\<close> and \<open>-0.0004\<close> gives \<^verbatim>\<open>"-0"\<close>.
\<close>

theorem well_formed_message_publishes:
  assumes "json_loads L payload = Inr rcv"
    and "\<forall>p\<in>set (param_conv cfg). \<exists>f. field_value L rcv (fst p) = Inr f \<and>
           publish_result L (name cfg @ ''/'' @ snd p) (format_0f (fmul f thousand)) = Ok"
  shows "on_message L cfg (topic cfg) payload =
           (None,
            map (\<lambda>p. Publish (name cfg @ ''/'' @ snd p)
                        (format_0f (fmul (projr (field_value L rcv (fst p))) thousand)))
                (param_conv cfg)) \<and>
         (\<forall>s m e. \<exists>n. format_0f (Finite s m e) = (if s then ''-'' else []) @ show_nat n \<and>
                        set (show_nat n) \<subseteq> set ''0123456789'' \<and>
                        \<bar>real n - magnitude m e\<bar> \<le> 1 / 2 \<and>
                        (\<bar>real n - magnitude m e\<bar> = 1 / 2 \<longrightarrow> even n)) \<and>
         format_0f NaN = ''nan'' \<and>
         format_0f (Infinity False) = ''inf'' \<and>
         format_0f (Infinity True) = ''-inf'' \<and>
         fmul NaN thousand = NaN \<and>
         (\<forall>s. fmul (Infinity s) thousand = Infinity s) \<and>
         format_0f (fmul (float_of_decimal False 12345 (- 3)) thousand) = ''12345'' \<and>
         format_0f (fmul (float_of_decimal True 4 (- 4)) thousand) = ''-0''"
proof (intro conjI)
  show "on_message L cfg (topic cfg) payload =
           (None,
            map (\<lambda>p. Publish (name cfg @ ''/'' @ snd p)
                        (format_0f (fmul (projr (field_value L rcv (fst p))) thousand)))
                (param_conv cfg))"
    using convert_all_published[OF assms(2)] assms(1) by (simp add: on_message_def)
  show "\<forall>s m e. \<exists>n. format_0f (Finite s m e) = (if s then ''-'' else []) @ show_nat n \<and>
                        set (show_nat n) \<subseteq> set ''0123456789'' \<and>
                        \<bar>real n - magnitude m e\<bar> \<le> 1 / 2 \<and>
                        (\<bar>real n - magnitude m e\<bar> = 1 / 2 \<longrightarrow> even n)"
    using format_0f_finite by blast
  show "format_0f NaN = ''nan''" by simp
  show "format_0f (Infinity False) = ''inf''" by simp
  show "format_0f (Infinity True) = ''-inf''" by simp
  show "fmul NaN thousand = NaN" by simp
  show "\<forall>s. fmul (Infinity s) thousand = Infinity s" by (simp add: thousand_def)
  show "format_0f (fmul (float_of_decimal False 12345 (- 3)) thousand) = ''12345''"
    by (simp add: float_eval)
  show "format_0f (fmul (float_of_decimal True 4 (- 4)) thousand) = ''-0''"
    by (simp add: float_eval)
qed

theorem well_formed_message_publishes_witness:
  "on_message example_lib example_config ''hal/sensors''
     ''{\"temp\": 12.345, \"hum\": -0.0004}'' =
     (None, [Publish ''nofp/t'' ''12345'', Publish ''nofp/h'' ''-0''])"
  using well_formed_message_publishes[where L = example_lib
      and payload = "''{\"temp\": 12.345, \"hum\": -0.0004}''"
      and rcv = "JDict [(''temp'', JFloat (float_of_decimal False 12345 (- 3))),
                        (''hum'', JFloat (float_of_decimal True 4 (- 4)))]"
      and cfg = example_config]
  by (simp add: example_lib_def example_config_def field_value_def has_wildcard_def float_eval)

text \<open>
  C10. The claim as stated fails in two ways. A field whose value is \<^verbatim>\<open>true\<close> is not a number,
  but \<^verbatim>\<open>float(True)\<close> is \<open>1.0\<close>: for \<^verbatim>\<open>{"temp": 3, "hum": true}\<close> both pairs are published and no
  failure is logged. And \<^verbatim>\<open>self.publish\<close> raises for a topic the transport client refuses: with
  the suffix \<^verbatim>\<open>#\<close> for the first pair and the field of the second pair absent, nothing is
  published for the first pair before the failure is logged.
\<close>

theorem conversion_not_atomic_counterexample:
  "on_message example_lib example_config ''hal/sensors'' ''{\"temp\": 3, \"hum\": true}'' =
     (None, [Publish ''nofp/t'' ''3000'', Publish ''nofp/h'' ''1000'']) \<and>
   warnings (snd (on_message example_lib example_config ''hal/sensors''
     ''{\"temp\": 3, \"hum\": true}'')) = 0 \<and>
   on_message example_lib (example_config\<lparr>param_conv := [(''temp'', ''#''), (''hum'', ''h'')]\<rparr>)
     ''hal/sensors'' ''{\"temp\": 3}'' =
     (None, [Log Warning ''Message failed to parse: '', Log Warning traceback])"
  by (simp add: on_message_def example_lib_def example_config_def field_value_def has_wildcard_def
      warnings_def float_eval)

text \<open>
  C10, amended. Message conversion is not atomic. When the payload decodes, the first pairs of
  \<^verbatim>\<open>param_conv\<close> have a field that converts to a float and a publish call that returns, and for
  the next pair the lookup of the field or \<^verbatim>\<open>float\<close> of its value raises (the field is absent, or
  its value is one that \<^verbatim>\<open>float\<close> rejects; a boolean is converted), \<^verbatim>\<open>on_message\<close> has published for
  each of those first pairs, in the order of the list, before it logs the failure with two
  warnings; nothing is published for the failing pair or any pair after it.
\<close>

theorem conversion_not_atomic:
  assumes "json_loads L payload = Inr rcv"
    and "param_conv cfg = pre @ bad # rest"
    and "\<forall>p\<in>set pre. \<exists>f. field_value L rcv (fst p) = Inr f \<and>
           publish_result L (name cfg @ ''/'' @ snd p) (format_0f (fmul f thousand)) = Ok"
    and "field_value L rcv (fst bad) = Inl e"
  shows "on_message L cfg (topic cfg) payload =
           (None,
            map (\<lambda>p. Publish (name cfg @ ''/'' @ snd p)
                        (format_0f (fmul (projr (field_value L rcv (fst p))) thousand))) pre @
            [Log Warning ''Message failed to parse: '', Log Warning traceback])"
  using convert_fails_at[OF assms(3,4), of rest] assms(1,2)
  by (simp add: on_message_def)

theorem conversion_not_atomic_witness:
  "on_message example_lib example_config ''hal/sensors'' ''{\"temp\": 3}'' =
     (None, [Publish ''nofp/t'' ''3000'',
             Log Warning ''Message failed to parse: '', Log Warning traceback])"
  using conversion_not_atomic[where L = example_lib and payload = "''{\"temp\": 3}''"
      and rcv = "JDict [(''temp'', JInt 3)]" and cfg = example_config
      and pre = "[(''temp'', ''t'')]" and bad = "(''hum'', ''h'')" and rest = "[]" and e = KeyError]
  by (simp add: example_lib_def example_config_def field_value_def has_wildcard_def float_eval)

end
